theory Spec2Isabelle
  imports Complex_Main
begin

section \<open>Dynamic Breakout II: the daily signal of \<open>DynamicBreakoutAlgoTutorial.py\<close>\<close>

text \<open>
  The theory embeds \<open>DynamicBreakoutAlgorithm.Initialize\<close> and
  \<open>DynamicBreakoutAlgorithm.SetSignal\<close>. Prices are real numbers. A value computed
  by numpy (\<open>np.std\<close>, \<open>np.mean\<close> and the arithmetic on them) is a real number or one
  of the three special values of a float64: the rounding of float64 arithmetic and
  overflow from finite operands are not modelled, division by zero and the empty
  average are.
\<close>

subsection \<open>Values\<close>

datatype error = KeyError | ValueError | OverflowError | IndexError

datatype npfloat = Fin real | PInf | NInf | NaN

text \<open>float64 addition, negation, subtraction, multiplication and division.
  A zero divisor is \<open>+0.0\<close>: the only divisor of the program is a standard deviation.\<close>

fun fadd :: "npfloat \<Rightarrow> npfloat \<Rightarrow> npfloat" where
  "fadd (Fin a) (Fin b) = Fin (a + b)"
| "fadd NaN _ = NaN"
| "fadd _ NaN = NaN"
| "fadd PInf NInf = NaN"
| "fadd NInf PInf = NaN"
| "fadd PInf _ = PInf"
| "fadd _ PInf = PInf"
| "fadd NInf _ = NInf"
| "fadd _ NInf = NInf"

fun fneg :: "npfloat \<Rightarrow> npfloat" where
  "fneg (Fin a) = Fin (- a)"
| "fneg PInf = NInf"
| "fneg NInf = PInf"
| "fneg NaN = NaN"

definition fsub :: "npfloat \<Rightarrow> npfloat \<Rightarrow> npfloat" where
  "fsub a b = fadd a (fneg b)"

definition signed_inf :: "bool \<Rightarrow> npfloat" where
  "signed_inf positive = (if positive then PInf else NInf)"

fun fmul :: "npfloat \<Rightarrow> npfloat \<Rightarrow> npfloat" where
  "fmul (Fin a) (Fin b) = Fin (a * b)"
| "fmul NaN _ = NaN"
| "fmul _ NaN = NaN"
| "fmul (Fin a) PInf = (if a = 0 then NaN else signed_inf (0 < a))"
| "fmul (Fin a) NInf = (if a = 0 then NaN else signed_inf (a < 0))"
| "fmul PInf (Fin b) = (if b = 0 then NaN else signed_inf (0 < b))"
| "fmul NInf (Fin b) = (if b = 0 then NaN else signed_inf (b < 0))"
| "fmul PInf PInf = PInf"
| "fmul NInf NInf = PInf"
| "fmul PInf NInf = NInf"
| "fmul NInf PInf = NInf"

fun fdiv :: "npfloat \<Rightarrow> npfloat \<Rightarrow> npfloat" where
  "fdiv (Fin a) (Fin b) =
     (if b \<noteq> 0 then Fin (a / b) else if a = 0 then NaN else signed_inf (0 < a))"
| "fdiv NaN _ = NaN"
| "fdiv _ NaN = NaN"
| "fdiv (Fin a) PInf = Fin 0"
| "fdiv (Fin a) NInf = Fin 0"
| "fdiv PInf (Fin b) = signed_inf (0 \<le> b)"
| "fdiv NInf (Fin b) = signed_inf (b < 0)"
| "fdiv PInf PInf = NaN"
| "fdiv PInf NInf = NaN"
| "fdiv NInf PInf = NaN"
| "fdiv NInf NInf = NaN"

text \<open>Comparisons of a price with a float64: every comparison with nan is false.\<close>

fun fle :: "real \<Rightarrow> npfloat \<Rightarrow> bool" where
  "fle p (Fin b) = (p \<le> b)"
| "fle p PInf = True"
| "fle p NInf = False"
| "fle p NaN = False"

fun fge :: "real \<Rightarrow> npfloat \<Rightarrow> bool" where
  "fge p (Fin b) = (b \<le> p)"
| "fge p PInf = False"
| "fge p NInf = True"
| "fge p NaN = False"

text \<open>Python's \<open>round\<close> of a float with no second argument: to the nearest integer,
  a tie to the even one.\<close>

definition py_round :: "real \<Rightarrow> int" where
  "py_round x =
     (let f = \<lfloor>x\<rfloor>; d = x - of_int f
      in if d < 1 / 2 then f else if 1 / 2 < d then f + 1
         else if even f then f else f + 1)"

text \<open>\<open>int(round(x))\<close>: nan raises ValueError, an infinity OverflowError.\<close>

fun py_int_round :: "npfloat \<Rightarrow> error + int" where
  "py_int_round (Fin x) = Inr (py_round x)"
| "py_int_round NaN = Inl ValueError"
| "py_int_round PInf = Inl OverflowError"
| "py_int_round NInf = Inl OverflowError"

subsection \<open>Series\<close>

text \<open>A bar of the history frame; the fields are the columns \<open>high\<close>, \<open>low\<close> and
  \<open>close\<close> (the algorithm's own attributes \<open>high\<close> and \<open>low\<close> keep the plain names).\<close>

record bar =
  bhigh :: real
  blow :: real
  bclose :: real

text \<open>\<open>frame['close']\<close>: the frame of an empty history has no columns, so the
  lookup raises KeyError.\<close>

definition column :: "(bar \<Rightarrow> real) \<Rightarrow> bar list \<Rightarrow> error + real list" where
  "column f frame = (if frame = [] then Inl KeyError else Inr (map f frame))"

text \<open>The positional slice \<open>s[i:j]\<close> with literal bounds \<open>0 \<le> i \<le> j\<close>.\<close>

definition py_slice :: "nat \<Rightarrow> nat \<Rightarrow> 'a list \<Rightarrow> 'a list" where
  "py_slice i j s = take (j - i) (drop i s)"

text \<open>\<open>np.mean\<close> and \<open>np.std\<close> (population standard deviation, \<open>ddof = 0\<close>); both
  are nan on an empty series.\<close>

definition np_mean :: "real list \<Rightarrow> npfloat" where
  "np_mean s = (if s = [] then NaN else Fin (sum_list s / real (length s)))"

definition np_std :: "real list \<Rightarrow> npfloat" where
  "np_std s =
     (if s = [] then NaN
      else let avg = sum_list s / real (length s)
           in Fin (sqrt (sum_list (map (\<lambda>x. (avg - x)\<^sup>2) s) / real (length s))))"

text \<open>The builtins \<open>max\<close> and \<open>min\<close> over the values of a series: the first element,
  replaced by each later one that is strictly greater (smaller); ValueError when empty.\<close>

fun py_max :: "real list \<Rightarrow> error + real" where
  "py_max [] = Inl ValueError"
| "py_max (x # xs) = Inr (fold (\<lambda>y m. if m < y then y else m) xs x)"

fun py_min :: "real list \<Rightarrow> error + real" where
  "py_min [] = Inl ValueError"
| "py_min (x # xs) = Inr (fold (\<lambda>y m. if y < m then y else m) xs x)"

text \<open>\<open>s.iloc[-1]\<close>.\<close>

definition iloc_last :: "real list \<Rightarrow> error + real" where
  "iloc_last s = (if s = [] then Inl IndexError else Inr (last s))"

subsection \<open>The algorithm object and what it observes\<close>

text \<open>The attributes of \<open>self\<close> that \<open>Initialize\<close> and \<open>SetSignal\<close> assign.
  \<open>ceiling\<close> and \<open>floor\<close> carry a suffix. \<open>None\<close> is the Python \<open>None\<close>, and for
  \<open>high\<close> and \<open>low\<close> an attribute not assigned yet.\<close>

record algo =
  numdays :: int
  ceiling_lim :: int
  floor_lim :: int
  buypoint :: "real option"
  sellpoint :: "real option"
  longLiqPoint :: "npfloat option"
  shortLiqPoint :: "npfloat option"
  yesterdayclose :: "real option"
  high :: "real list option"
  low :: "real list option"

text \<open>What one call of \<open>SetSignal\<close> reads from the platform: the answer of
  \<open>self.History(self.syl, n, Resolution.Daily)\<close> for each count \<open>n\<close>, the Bollinger band
  object \<open>self.Bolband\<close> and the holding \<open>self.Portfolio[self.syl]\<close>.\<close>

record env =
  History :: "int \<Rightarrow> bar list"
  IsReady :: bool
  UpperBand :: real
  LowerBand :: real
  Quantity :: real
  Price :: real

text \<open>What a call sends out: \<open>self.SetHoldings(self.syl, w)\<close>, \<open>self.Liquidate(self.syl)\<close>
  and \<open>self.Log\<close> of the message built from \<open>yesterdayclose\<close> and \<open>numdays\<close>.\<close>

datatype effect = SetHoldings int | Liquidate | Log real int

text \<open>A call returns, or raises; either way it leaves an algorithm object behind.\<close>

datatype outcome = Raised error algo | Returned algo "effect list"

fun final_state :: "outcome \<Rightarrow> algo" where
  "final_state (Raised e self) = self"
| "final_state (Returned self effs) = self"

fun returned :: "outcome \<Rightarrow> bool" where
  "returned (Raised e self) = False"
| "returned (Returned self effs) = True"

fun emitted :: "outcome \<Rightarrow> effect list" where
  "emitted (Raised e self) = []"
| "emitted (Returned self effs) = effs"

definition Initialize :: algo where
  "Initialize =
     \<lparr>numdays = 20, ceiling_lim = 60, floor_lim = 20,
      buypoint = None, sellpoint = None,
      longLiqPoint = None, shortLiqPoint = None, yesterdayclose = None,
      high = None, low = None\<rparr>"

text \<open>Lines 62 to 65: the two volatilities over the 31 closes, their relative change,
  and \<open>int(round(self.numdays * (1 + deltavol)))\<close>.\<close>

definition scaled_numdays :: "int \<Rightarrow> real list \<Rightarrow> error + int" where
  "scaled_numdays nd close =
     (let todayvol = np_std (py_slice 1 31 close);
          yesterdayvol = np_std (py_slice 0 30 close);
          deltavol = fdiv (fsub todayvol yesterdayvol) todayvol
      in py_int_round (fmul (Fin (of_int nd)) (fadd (Fin 1) deltavol)))"

text \<open>Lines 67 to 70.\<close>

definition clamp_numdays :: "algo \<Rightarrow> algo" where
  "clamp_numdays self =
     (if numdays self > ceiling_lim self then self\<lparr>numdays := ceiling_lim self\<rparr>
      else if numdays self < floor_lim self then self\<lparr>numdays := floor_lim self\<rparr>
      else self)"

text \<open>Lines 85 to 95: the two \<open>if\<close>/\<open>elif\<close> statements, one after the other, on
  \<open>yesterdayclose\<close>, \<open>buypoint\<close>, \<open>sellpoint\<close> and \<open>shortLiqPoint\<close> as just assigned.
  \<open>holdings\<close> is read once, before either statement.\<close>

definition orders :: "env \<Rightarrow> real \<Rightarrow> real \<Rightarrow> real \<Rightarrow> npfloat \<Rightarrow> effect list" where
  "orders env yc bp sp liq =
     (let holdings = Quantity env;
          entry =
            (if yc > UpperBand env \<and> Price env \<ge> bp then [SetHoldings 1]
             else if yc < LowerBand env \<and> Price env \<le> sp then [SetHoldings (- 1)]
             else []);
          exit =
            (if holdings > 0 \<and> fle (Price env) liq then [Liquidate]
             else if holdings < 0 \<and> fge (Price env) liq then [Liquidate]
             else [])
      in entry @ exit)"

text \<open>\<open>SetSignal\<close>, lines 59 to 97. Every assignment to an attribute is an update of the
  object, every subscript or call that can raise is a case distinction, and an exception
  leaves the object as the assignments before it made it.\<close>

definition SetSignal :: "algo \<Rightarrow> env \<Rightarrow> outcome" where
  "SetSignal self env =
    (case column bclose (History env 31) of Inl e \<Rightarrow> Raised e self | Inr close \<Rightarrow>
    (case scaled_numdays (numdays self) close of Inl e \<Rightarrow> Raised e self | Inr n \<Rightarrow>
    (let self = clamp_numdays (self\<lparr>numdays := n\<rparr>) in
    (case column bhigh (History env (numdays self)) of Inl e \<Rightarrow> Raised e self | Inr h \<Rightarrow>
    (let self = self\<lparr>high := Some h\<rparr> in
    (case column blow (History env (numdays self)) of Inl e \<Rightarrow> Raised e self | Inr l \<Rightarrow>
    (let self = self\<lparr>low := Some l\<rparr> in
    (case py_max h of Inl e \<Rightarrow> Raised e self | Inr bp \<Rightarrow>
    (let self = self\<lparr>buypoint := Some bp\<rparr> in
    (case py_min l of Inl e \<Rightarrow> Raised e self | Inr sp \<Rightarrow>
    (let self = self\<lparr>sellpoint := Some sp\<rparr> in
    (case column bclose (History env (numdays self)) of Inl e \<Rightarrow> Raised e self
     | Inr historyclose \<Rightarrow>
    (let self = self\<lparr>longLiqPoint := Some (np_mean historyclose)\<rparr>;
         self = self\<lparr>shortLiqPoint := Some (np_mean historyclose)\<rparr>
     in
    (case iloc_last historyclose of Inl e \<Rightarrow> Raised e self | Inr yc \<Rightarrow>
    (let self = self\<lparr>yesterdayclose := Some yc\<rparr> in
     if \<not> IsReady env then Returned self []
     else Returned self
            (orders env yc bp sp (np_mean historyclose) @ [Log yc (numdays self)]))))))))))))))))"

text \<open>The scheduler calls \<open>SetSignal\<close> once a day on the same object. The trace of a run
  records, for each call that returns, \<open>numdays\<close> after the call and what the call sent
  out; an exception ends the run and is the last entry.\<close>

fun run :: "algo \<Rightarrow> env list \<Rightarrow> (error + int \<times> effect list) list" where
  "run self [] = []"
| "run self (env # envs) =
     (case SetSignal self env of
        Raised e self' \<Rightarrow> [Inl e]
      | Returned self' effs \<Rightarrow> Inr (numdays self', effs) # run self' envs)"

text \<open>Modelled from the spec: the price history request of the platform,
  \<open>getBars(symbol, count, resolution)\<close>, is not part of the source file. It answers with
  the \<open>count\<close> most recent of the available bars, chronological, most recent last, and
  with fewer when fewer are available.\<close>

definition getBars :: "bar list \<Rightarrow> int \<Rightarrow> bar list" where
  "getBars available count = drop (length available - nat count) available"

subsection \<open>The words of the specification\<close>




text \<open>The entry and the liquidation among what a call sent out.\<close>

fun is_entry :: "effect \<Rightarrow> bool" where
  "is_entry (SetHoldings w) = True"
| "is_entry _ = False"

fun is_liquidation :: "effect \<Rightarrow> bool" where
  "is_liquidation Liquidate = True"
| "is_liquidation _ = False"

definition decisions :: "effect list \<Rightarrow> effect list" where
  "decisions effs = filter (\<lambda>e. is_entry e \<or> is_liquidation e) effs"

subsection \<open>Concrete days\<close>

text \<open>A bar around a close, half a unit wide on each side.\<close>

definition day_bar :: "real \<Rightarrow> bar" where
  "day_bar c = \<lparr>bhigh = c + 1 / 2, blow = c - 1 / 2, bclose = c\<rparr>"

text \<open>31 closes whose last 30 have standard deviation \<open>24 / 5\<close> and whose first 30 have
  \<open>12 / 5\<close>; 31 equal closes; and a history of 5 bars only.\<close>

definition closes_widening :: "real list" where
  "closes_widening =
     [5, 8, 7, 2, 7, 9, 8, 3, 5, 8, 6, 9, 9, 5, 8, 2, 6, 5, 8, 3, 1, 7, 9, 3, 6, 4, 5,
      3, 9, 4, 29]"

definition closes_flat :: "real list" where
  "closes_flat = replicate 31 5"

definition closes_short :: "real list" where
  "closes_short = [11, 10, 10, 16, 16]"

text \<open>A short position on the day the price breaks out upwards.\<close>

definition env_breakout :: env where
  "env_breakout =
     \<lparr>History = getBars (map day_bar closes_widening), IsReady = True,
      UpperBand = 20, LowerBand = 0, Quantity = - 1000, Price = 30\<rparr>"

text \<open>A long position with the price exactly on the mean of the window's closes.\<close>

definition env_exit_boundary :: env where
  "env_exit_boundary =
     \<lparr>History = getBars (map day_bar closes_widening), IsReady = True,
      UpperBand = 40, LowerBand = 0, Quantity = 1000, Price = 33 / 5\<rparr>"

definition env_band_not_ready :: env where
  "env_band_not_ready =
     \<lparr>History = getBars (map day_bar closes_widening), IsReady = False,
      UpperBand = 20, LowerBand = 0, Quantity = - 1000, Price = 30\<rparr>"

definition env_flat :: env where
  "env_flat =
     \<lparr>History = getBars (map day_bar closes_flat), IsReady = True,
      UpperBand = 6, LowerBand = 4, Quantity = 0, Price = 5\<rparr>"

definition env_short :: env where
  "env_short =
     \<lparr>History = getBars (map day_bar closes_short), IsReady = True,
      UpperBand = 15, LowerBand = 9, Quantity = 0, Price = 17\<rparr>"

text \<open>A day on which the last 30 closes are equal and the one before them is not.\<close>

definition closes_settled :: "real list" where
  "closes_settled = 8 # replicate 30 5"

definition env_settled :: env where
  "env_settled =
     \<lparr>History = getBars (map day_bar closes_settled), IsReady = True,
      UpperBand = 6, LowerBand = 4, Quantity = 0, Price = 5\<rparr>"

text \<open>A day on which the platform has no bar at all.\<close>

definition env_no_history :: env where
  "env_no_history =
     \<lparr>History = getBars [], IsReady = True,
      UpperBand = 6, LowerBand = 4, Quantity = 0, Price = 5\<rparr>"

text \<open>The algorithm object after the first call on the widening closes, and after the
  first call on the short history.\<close>

definition after_widening :: algo where
  "after_widening =
     \<lparr>numdays = 30, ceiling_lim = 60, floor_lim = 20,
      buypoint = Some (59 / 2), sellpoint = Some (1 / 2),
      longLiqPoint = Some (Fin (33 / 5)), shortLiqPoint = Some (Fin (33 / 5)),
      yesterdayclose = Some 29,
      high = Some (map bhigh (map day_bar (tl closes_widening))),
      low = Some (map blow (map day_bar (tl closes_widening)))\<rparr>"

definition after_short :: algo where
  "after_short =
     \<lparr>numdays = 21, ceiling_lim = 60, floor_lim = 20,
      buypoint = Some (33 / 2), sellpoint = Some (19 / 2),
      longLiqPoint = Some (Fin (63 / 5)), shortLiqPoint = Some (Fin (63 / 5)),
      yesterdayclose = Some 16,
      high = Some (map bhigh (map day_bar closes_short)),
      low = Some (map blow (map day_bar closes_short))\<rparr>"

section \<open>Properties\<close>

subsection \<open>Series operations\<close>

lemma fold_keep_greater: "fold (\<lambda>y m. if m < y then y else m) xs (x::real) = Max (set (x # xs))"
proof -
  have "(\<lambda>y m. if m < y then y else m) = (max :: real \<Rightarrow> real \<Rightarrow> real)"
    by (auto simp: fun_eq_iff max_def)
  then show ?thesis by (simp only: Max.set_eq_fold)
qed

lemma fold_keep_smaller: "fold (\<lambda>y m. if y < m then y else m) xs (x::real) = Min (set (x # xs))"
proof -
  have "(\<lambda>y m. if y < m then y else m) = (min :: real \<Rightarrow> real \<Rightarrow> real)"
    by (auto simp: fun_eq_iff min_def)
  then show ?thesis by (simp only: Min.set_eq_fold)
qed

lemma py_max_Max: "xs \<noteq> [] \<Longrightarrow> py_max xs = Inr (Max (set xs))"
  by (cases xs) (simp_all add: fold_keep_greater)

lemma py_min_Min: "xs \<noteq> [] \<Longrightarrow> py_min xs = Inr (Min (set xs))"
  by (cases xs) (simp_all add: fold_keep_smaller)



subsection \<open>The outcomes of a call\<close>

lemma column_empty: "column f [] = Inl KeyError"
  by (simp add: column_def)

lemma column_nonempty: "frame \<noteq> [] \<Longrightarrow> column f frame = Inr (map f frame)"
  by (simp add: column_def)

lemma numdays_clamp_numdays:
  "numdays (clamp_numdays self) =
     (if numdays self > ceiling_lim self then ceiling_lim self
      else if numdays self < floor_lim self then floor_lim self else numdays self)"
  by (simp add: clamp_numdays_def)

lemma limits_clamp_numdays:
  "floor_lim (clamp_numdays self) = floor_lim self"
  "ceiling_lim (clamp_numdays self) = ceiling_lim self"
  by (simp_all add: clamp_numdays_def)

lemma SetSignal_no_history:
  "History env 31 = [] \<Longrightarrow> SetSignal self env = Raised KeyError self"
  by (simp add: SetSignal_def column_empty)

lemma SetSignal_round_raises:
  "History env 31 \<noteq> [] \<Longrightarrow>
   scaled_numdays (numdays self) (map bclose (History env 31)) = Inl e \<Longrightarrow>
   SetSignal self env = Raised e self"
  by (simp add: SetSignal_def column_nonempty)

lemma SetSignal_no_window:
  "History env 31 \<noteq> [] \<Longrightarrow>
   scaled_numdays (numdays self) (map bclose (History env 31)) = Inr n \<Longrightarrow>
   History env (numdays (clamp_numdays (self\<lparr>numdays := n\<rparr>))) = [] \<Longrightarrow>
   SetSignal self env = Raised KeyError (clamp_numdays (self\<lparr>numdays := n\<rparr>))"
  by (simp add: SetSignal_def column_nonempty column_empty Let_def)

lemma SetSignal_returns:
  assumes "History env 31 \<noteq> []"
    and "scaled_numdays (numdays self) (map bclose (History env 31)) = Inr n"
    and "s1 = clamp_numdays (self\<lparr>numdays := n\<rparr>)"
    and "w = History env (numdays s1)"
    and "w \<noteq> []"
  shows "SetSignal self env =
     Returned
       (s1\<lparr>high := Some (map bhigh w), low := Some (map blow w),
           buypoint := Some (Max (set (map bhigh w))),
           sellpoint := Some (Min (set (map blow w))),
           longLiqPoint := Some (Fin (sum_list (map bclose w) / real (length w))),
           shortLiqPoint := Some (Fin (sum_list (map bclose w) / real (length w))),
           yesterdayclose := Some (bclose (last w))\<rparr>)
       (if IsReady env
        then orders env (bclose (last w)) (Max (set (map bhigh w))) (Min (set (map blow w)))
               (Fin (sum_list (map bclose w) / real (length w)))
             @ [Log (bclose (last w)) (numdays s1)]
        else [])"
  using assms
  by (simp add: SetSignal_def column_nonempty Let_def py_max_Max py_min_Min np_mean_def
      iloc_last_def last_map)

lemma SetSignal_cases [case_names no_history round_raises no_window returns]:
  obtains "History env 31 = []"
  | e where "History env 31 \<noteq> []"
      and "scaled_numdays (numdays self) (map bclose (History env 31)) = Inl e"
  | n where "History env 31 \<noteq> []"
      and "scaled_numdays (numdays self) (map bclose (History env 31)) = Inr n"
      and "History env (numdays (clamp_numdays (self\<lparr>numdays := n\<rparr>))) = []"
  | n where "History env 31 \<noteq> []"
      and "scaled_numdays (numdays self) (map bclose (History env 31)) = Inr n"
      and "History env (numdays (clamp_numdays (self\<lparr>numdays := n\<rparr>))) \<noteq> []"
  by (cases "scaled_numdays (numdays self) (map bclose (History env 31))") blast+

lemma SetSignal_numdays:
  assumes "History env 31 \<noteq> []"
    and "scaled_numdays (numdays self) (map bclose (History env 31)) = Inr n"
  shows "numdays (final_state (SetSignal self env)) = numdays (clamp_numdays (self\<lparr>numdays := n\<rparr>))"
proof (cases "History env (numdays (clamp_numdays (self\<lparr>numdays := n\<rparr>))) = []")
  case True
  then show ?thesis using assms by (simp add: SetSignal_no_window)
next
  case False
  then show ?thesis using assms by (simp add: SetSignal_returns [OF assms refl refl])
qed


lemma orders_finite_level:
  "orders env yc bp sp (Fin m) =
     (if yc > UpperBand env \<and> Price env \<ge> bp then [SetHoldings 1]
      else if yc < LowerBand env \<and> Price env \<le> sp then [SetHoldings (- 1)]
      else [])
     @ (if Quantity env > 0 \<and> Price env \<le> m then [Liquidate]
        else if Quantity env < 0 \<and> Price env \<ge> m then [Liquidate]
        else [])"
  by (simp add: orders_def Let_def)

lemma orders_shape:
  "orders env yc bp sp liq \<in>
     {[], [SetHoldings 1], [SetHoldings (- 1)], [Liquidate],
      [SetHoldings 1, Liquidate], [SetHoldings (- 1), Liquidate]}"
  by (simp add: orders_def Let_def)

lemma decisions_orders:
  "decisions (orders env yc bp sp liq @ [Log a b]) = orders env yc bp sp liq"
  by (simp add: orders_def decisions_def Let_def)

lemma Liquidate_in_orders:
  "Liquidate \<in> set (orders env yc bp sp liq) \<longleftrightarrow>
     Quantity env > 0 \<and> fle (Price env) liq \<or> Quantity env < 0 \<and> fge (Price env) liq"
  by (auto simp: orders_def Let_def)

lemma SetSignal_returns_ready:
  assumes "History env 31 \<noteq> []"
    and "scaled_numdays (numdays self) (map bclose (History env 31)) = Inr n"
    and "History env (numdays (clamp_numdays (self\<lparr>numdays := n\<rparr>))) \<noteq> []"
    and "IsReady env"
  defines "w \<equiv> History env (numdays (clamp_numdays (self\<lparr>numdays := n\<rparr>)))"
  shows "emitted (SetSignal self env) =
      orders env (bclose (last w)) (Max (set (map bhigh w))) (Min (set (map blow w)))
        (Fin (sum_list (map bclose w) / real (length w)))
      @ [Log (bclose (last w)) (numdays (clamp_numdays (self\<lparr>numdays := n\<rparr>)))]"
  unfolding w_def using assms(4)
  by (simp only: SetSignal_returns [OF assms(1,2) refl refl assms(3)] emitted.simps if_True)

lemma SetSignal_same_lookback:
  assumes "numdays s1 = numdays s2"
    and "floor_lim s1 = floor_lim s2" and "ceiling_lim s1 = ceiling_lim s2"
  shows "(\<exists>e a b. SetSignal s1 env = Raised e a \<and> SetSignal s2 env = Raised e b) \<or>
    (\<exists>a b effs. SetSignal s1 env = Returned a effs \<and> SetSignal s2 env = Returned b effs \<and>
       numdays a = numdays b \<and> floor_lim a = floor_lim b \<and> ceiling_lim a = ceiling_lim b)"
proof -
  have cl: "numdays (clamp_numdays (s1\<lparr>numdays := n\<rparr>)) = numdays (clamp_numdays (s2\<lparr>numdays := n\<rparr>))"
    for n
    using assms(2,3) by (simp add: numdays_clamp_numdays)
  show ?thesis
  proof (cases rule: SetSignal_cases [where env = env and self = s1])
    case no_history
    then show ?thesis by (simp add: SetSignal_no_history)
  next
    case (round_raises e)
    then show ?thesis
      using assms(1) by (simp add: SetSignal_round_raises)
  next
    case (no_window n)
    have "SetSignal s1 env = Raised KeyError (clamp_numdays (s1\<lparr>numdays := n\<rparr>))"
      using no_window by (rule SetSignal_no_window)
    moreover have "SetSignal s2 env = Raised KeyError (clamp_numdays (s2\<lparr>numdays := n\<rparr>))"
      using no_window assms(1) by (intro SetSignal_no_window) (simp_all add: cl [symmetric])
    ultimately show ?thesis by blast
  next
    case (returns n)
    have n2: "scaled_numdays (numdays s2) (map bclose (History env 31)) = Inr n"
      using returns(2) assms(1) by simp
    have w2: "History env (numdays (clamp_numdays (s2\<lparr>numdays := n\<rparr>))) \<noteq> []"
      using returns(3) by (simp add: cl)
    show ?thesis
      using assms(2,3)
      by (simp add: SetSignal_returns [OF returns(1,2) refl refl returns(3)]
          SetSignal_returns [OF returns(1) n2 refl refl w2] cl [symmetric]
          limits_clamp_numdays)
  qed
qed

lemma py_slice_short:
  assumes "length c \<le> 30"
  shows "py_slice 1 31 c = tl c" and "py_slice 0 30 c = c"
  using assms by (simp_all add: py_slice_def drop_Suc)

lemma returned_window:
  assumes "returned (SetSignal self env)"
  obtains n where "History env 31 \<noteq> []"
    and "scaled_numdays (numdays self) (map bclose (History env 31)) = Inr n"
    and "History env (numdays (clamp_numdays (self\<lparr>numdays := n\<rparr>))) \<noteq> []"
proof (cases rule: SetSignal_cases [where env = env and self = self])
  case no_history
  then show ?thesis using assms by (simp add: SetSignal_no_history)
next
  case (round_raises e)
  then show ?thesis using assms by (simp add: SetSignal_round_raises)
next
  case (no_window n)
  then show ?thesis using assms by (simp add: SetSignal_no_window)
next
  case (returns n)
  then show ?thesis using that by blast
qed

lemma scaled_numdays_finite:
  assumes "np_std (py_slice 1 31 c) = Fin t" and "np_std (py_slice 0 30 c) = Fin y" and "t \<noteq> 0"
  shows "scaled_numdays nd c = Inr (py_round (of_int nd * (1 + (t - y) / t)))"
  using assms by (simp add: scaled_numdays_def fsub_def)

lemma scaled_numdays_zero_vol:
  assumes "np_std (py_slice 1 31 c) = Fin 0"
  shows "scaled_numdays nd c =
     Inl (if np_std (py_slice 0 30 c) = Fin 0 \<or> nd = 0 then ValueError else OverflowError)"
proof -
  have "py_slice 1 31 c \<noteq> []"
    using assms by (auto simp: np_std_def)
  then have "py_slice 0 30 c \<noteq> []"
    by (cases c) (auto simp: py_slice_def)
  then obtain y where y: "np_std (py_slice 0 30 c) = Fin y"
    by (simp add: np_std_def Let_def)
  show ?thesis
    using assms y by (simp add: scaled_numdays_def fsub_def signed_inf_def)
qed

subsection \<open>The concrete days, evaluated\<close>

lemma sqrt_144_25: "sqrt (144 / 25) = 12 / 5"
  by (rule real_sqrt_unique) (simp_all add: power2_eq_square)

lemma sqrt_576_25: "sqrt (576 / 25) = 24 / 5"
  by (rule real_sqrt_unique) (simp_all add: power2_eq_square)

lemma sqrt_9: "sqrt 9 = 3"
  by (rule real_sqrt_unique) (simp_all add: power2_eq_square)

lemma sqrt_196_25: "sqrt (196 / 25) = 14 / 5"
  by (rule real_sqrt_unique) (simp_all add: power2_eq_square)

lemmas eval_simps =
  SetSignal_def scaled_numdays_def clamp_numdays_def orders_def Initialize_def getBars_def
  column_def np_std_def np_mean_def iloc_last_def py_slice_def py_round_def fsub_def
  signed_inf_def day_bar_def Let_def power2_eq_square
  sqrt_144_25 sqrt_576_25 sqrt_9 sqrt_196_25

lemma std_widening:
  "np_std (py_slice 1 31 closes_widening) = Fin (24 / 5)"
  "np_std (py_slice 0 30 closes_widening) = Fin (12 / 5)"
  by (simp_all add: closes_widening_def np_std_def py_slice_def power2_eq_square
      sqrt_144_25 sqrt_576_25)

lemma py_slice_replicate: "py_slice i j (replicate n x) = replicate (min (j - i) (n - i)) x"
  by (simp add: py_slice_def)

lemma np_std_replicate: "0 < n \<Longrightarrow> np_std (replicate n x) = Fin 0"
  by (simp add: np_std_def sum_list_replicate map_replicate_const)

lemma std_flat:
  "np_std (py_slice 1 31 closes_flat) = Fin 0"
  "np_std (py_slice 0 30 closes_flat) = Fin 0"
  by (simp_all add: closes_flat_def py_slice_replicate np_std_replicate)

lemma getBars_all: "int (length available) \<le> n \<Longrightarrow> getBars available n = available"
  by (simp add: getBars_def)

lemma bclose_day_bar: "map bclose (map day_bar cs) = cs"
  by (induction cs) (simp_all add: day_bar_def)

lemma history_flat: "History env_flat 31 = map day_bar closes_flat"
  by (simp add: env_flat_def getBars_all closes_flat_def)

lemma eval_breakout:
  "SetSignal Initialize env_breakout = Returned after_widening [SetHoldings 1, Liquidate, Log 29 30]"
  by (simp add: eval_simps env_breakout_def closes_widening_def after_widening_def)

lemma eval_exit_boundary:
  "SetSignal Initialize env_exit_boundary = Returned after_widening [Liquidate, Log 29 30]"
  by (simp add: eval_simps env_exit_boundary_def closes_widening_def after_widening_def)

lemma eval_band_not_ready:
  "SetSignal Initialize env_band_not_ready = Returned after_widening []"
  by (simp add: eval_simps env_band_not_ready_def closes_widening_def after_widening_def)

lemma eval_flat:
  "SetSignal Initialize env_flat = Raised ValueError Initialize"
proof -
  have h: "History env_flat 31 \<noteq> []"
    by (simp add: history_flat closes_flat_def)
  have c: "map bclose (History env_flat 31) = closes_flat"
    unfolding history_flat by (rule bclose_day_bar)
  have "scaled_numdays (numdays Initialize) (map bclose (History env_flat 31)) = Inl ValueError"
    unfolding c using scaled_numdays_zero_vol [OF std_flat(1)] by (simp add: std_flat)
  with h show ?thesis by (rule SetSignal_round_raises)
qed

lemma eval_short:
  "SetSignal Initialize env_short = Returned after_short [SetHoldings 1, Log 16 21]"
  by (simp add: eval_simps env_short_def closes_short_def after_short_def)

lemma history_widening:
  "History env_breakout 31 = map day_bar closes_widening"
  "History env_exit_boundary 31 = map day_bar closes_widening"
  "History env_band_not_ready 31 = map day_bar closes_widening"
  by (simp_all add: env_breakout_def env_exit_boundary_def env_band_not_ready_def getBars_def
      closes_widening_def)

lemma history_short: "History env_short 31 = map day_bar closes_short"
  by (simp add: env_short_def getBars_def closes_short_def)

lemma window_widening: "History env_breakout 30 = map day_bar (tl closes_widening)"
  by (simp add: env_breakout_def getBars_def closes_widening_def)

section \<open>The claims\<close>



text \<open>
  Claim C2. When the band indicator is ready and the call returns, what it sends out is,
  in this order: the entry, which is a full long target when
  \<open>yesterdayclose > UpperBand\<close> and \<open>Price \<ge> buypoint\<close>, otherwise a full short target when
  \<open>yesterdayclose < LowerBand\<close> and \<open>Price \<le> sellpoint\<close>, otherwise nothing; then the exit,
  which is a liquidation when the holding is positive and \<open>Price \<le> shortLiqPoint\<close>,
  otherwise a liquidation when the holding is negative and \<open>Price \<ge> shortLiqPoint\<close>,
  otherwise nothing; then the log record. So at most one entry and at most one
  liquidation are sent, and a long holding with the price exactly on \<open>shortLiqPoint\<close> is
  liquidated.
\<close>

theorem C2_decision_rules:
  assumes "IsReady env" and "returned (SetSignal self env)"
  defines "self' \<equiv> final_state (SetSignal self env)"
  shows "\<exists>yc bp sp m.
    yesterdayclose self' = Some yc \<and> buypoint self' = Some bp \<and> sellpoint self' = Some sp \<and>
    shortLiqPoint self' = Some (Fin m) \<and>
    emitted (SetSignal self env) =
      (if yc > UpperBand env \<and> Price env \<ge> bp then [SetHoldings 1]
       else if yc < LowerBand env \<and> Price env \<le> sp then [SetHoldings (- 1)]
       else [])
      @ (if Quantity env > 0 \<and> Price env \<le> m then [Liquidate]
         else if Quantity env < 0 \<and> Price env \<ge> m then [Liquidate]
         else [])
      @ [Log yc (numdays self')] \<and>
    length (filter is_entry (emitted (SetSignal self env))) \<le> 1 \<and>
    length (filter is_liquidation (emitted (SetSignal self env))) \<le> 1 \<and>
    (Quantity env > 0 \<and> Price env = m \<longrightarrow> Liquidate \<in> set (emitted (SetSignal self env)))"
proof -
  from assms(2) obtain n where h: "History env 31 \<noteq> []"
    and n: "scaled_numdays (numdays self) (map bclose (History env 31)) = Inr n"
    and ne: "History env (numdays (clamp_numdays (self\<lparr>numdays := n\<rparr>))) \<noteq> []"
    by (rule returned_window)
  define w where "w = History env (numdays (clamp_numdays (self\<lparr>numdays := n\<rparr>)))"
  define yc where "yc = bclose (last w)"
  define bp where "bp = Max (set (map bhigh w))"
  define sp where "sp = Min (set (map blow w))"
  define m where "m = sum_list (map bclose w) / real (length w)"
  note eq = SetSignal_returns [OF h n refl refl ne]
  have nd: "numdays self' = numdays (clamp_numdays (self\<lparr>numdays := n\<rparr>))"
    unfolding self'_def by (simp add: eq)
  have st: "yesterdayclose self' = Some yc" "buypoint self' = Some bp"
    "sellpoint self' = Some sp" "shortLiqPoint self' = Some (Fin m)"
    unfolding self'_def yc_def bp_def sp_def m_def w_def by (simp_all add: eq)
  have em: "emitted (SetSignal self env) = orders env yc bp sp (Fin m) @ [Log yc (numdays self')]"
    unfolding nd yc_def bp_def sp_def m_def w_def
    by (rule SetSignal_returns_ready [OF h n ne assms(1)])
  have shape: "emitted (SetSignal self env) =
      (if yc > UpperBand env \<and> Price env \<ge> bp then [SetHoldings 1]
       else if yc < LowerBand env \<and> Price env \<le> sp then [SetHoldings (- 1)]
       else [])
      @ (if Quantity env > 0 \<and> Price env \<le> m then [Liquidate]
         else if Quantity env < 0 \<and> Price env \<ge> m then [Liquidate]
         else [])
      @ [Log yc (numdays self')]"
    unfolding em orders_finite_level by simp
  have one_entry: "length (filter is_entry (emitted (SetSignal self env))) \<le> 1"
    unfolding shape by simp
  have one_exit: "length (filter is_liquidation (emitted (SetSignal self env))) \<le> 1"
    unfolding shape by simp
  have boundary: "Quantity env > 0 \<and> Price env = m \<longrightarrow>
      Liquidate \<in> set (emitted (SetSignal self env))"
    unfolding shape by simp
  from st shape one_entry one_exit boundary show ?thesis by blast
qed

theorem C2_decision_rules_witness:
  "IsReady env_exit_boundary \<and> returned (SetSignal Initialize env_exit_boundary) \<and>
   0 < Quantity env_exit_boundary \<and>
   shortLiqPoint (final_state (SetSignal Initialize env_exit_boundary))
     = Some (Fin (Price env_exit_boundary)) \<and>
   emitted (SetSignal Initialize env_exit_boundary) = [Liquidate, Log 29 30]"
proof -
  have rd: "IsReady env_exit_boundary" and q: "0 < Quantity env_exit_boundary"
    and pr: "Price env_exit_boundary = 33 / 5"
    by (simp_all add: env_exit_boundary_def)
  have r: "returned (SetSignal Initialize env_exit_boundary)"
    by (simp add: eval_exit_boundary)
  show ?thesis
    using rd q r C2_decision_rules [OF rd r] unfolding pr
    by (simp add: eval_exit_boundary after_widening_def)
qed

text \<open>
  Claim C3, as the code has it. The claim says that with \<open>todayvol = 0\<close> the call leaves
  \<open>numdays\<close> as it was and raises nothing. The code divides by \<open>todayvol\<close> without a
  test: the quotient is nan or an infinity, and \<open>int(round(...))\<close> of it raises. On 31
  equal closes the call raises ValueError.
\<close>

theorem C3_flat_series_raises:
  "np_std (py_slice 1 31 (map bclose (History env_flat 31))) = Fin 0 \<and>
   np_std (py_slice 0 30 (map bclose (History env_flat 31))) = Fin 0 \<and>
   \<not> returned (SetSignal Initialize env_flat) \<and>
   SetSignal Initialize env_flat = Raised ValueError Initialize"
proof -
  have c: "map bclose (History env_flat 31) = closes_flat"
    unfolding history_flat by (rule bclose_day_bar)
  show ?thesis
    unfolding c std_flat by (simp add: eval_flat)
qed

text \<open>
  Claim C3, amended. Whenever \<open>todayvol\<close> is 0 the call raises an exception, ValueError
  when \<open>yesterdayvol\<close> is 0 too (the quotient is nan) or \<open>numdays\<close> is 0, and
  OverflowError otherwise (the quotient is an infinity). The exception leaves the whole
  algorithm object, \<open>numdays\<close> included, as it was before the call, and nothing is sent
  out.
\<close>

theorem C3_zero_volatility_raises:
  assumes "np_std (py_slice 1 31 (map bclose (History env 31))) = Fin 0"
  shows "SetSignal self env =
      Raised (if np_std (py_slice 0 30 (map bclose (History env 31))) = Fin 0 \<or> numdays self = 0
              then ValueError else OverflowError) self \<and>
    numdays (final_state (SetSignal self env)) = numdays self \<and>
    emitted (SetSignal self env) = []"
proof -
  have ne: "History env 31 \<noteq> []"
    using assms by (auto simp: np_std_def py_slice_def)
  have "SetSignal self env =
      Raised (if np_std (py_slice 0 30 (map bclose (History env 31))) = Fin 0 \<or> numdays self = 0
              then ValueError else OverflowError) self"
    using ne scaled_numdays_zero_vol [OF assms] by (rule SetSignal_round_raises)
  then show ?thesis by simp
qed

theorem C3_zero_volatility_raises_witness:
  "np_std (py_slice 1 31 (map bclose (History env_settled 31))) = Fin 0 \<and>
   np_std (py_slice 0 30 (map bclose (History env_settled 31))) \<noteq> Fin 0 \<and>
   SetSignal Initialize env_settled = Raised OverflowError Initialize"
proof -
  have c: "map bclose (History env_settled 31) = closes_settled"
    by (simp add: env_settled_def getBars_all closes_settled_def day_bar_def)
  have t: "np_std (py_slice 1 31 closes_settled) = Fin 0"
    by (simp add: closes_settled_def py_slice_def np_std_replicate)
  have y: "np_std (py_slice 0 30 closes_settled) \<noteq> Fin 0"
    by (simp add: closes_settled_def py_slice_def np_std_def sum_list_replicate
        map_replicate_const power2_eq_square)
  show ?thesis
    using C3_zero_volatility_raises [of env_settled Initialize] t y unfolding c
    by (simp add: Initialize_def)
qed

text \<open>
  Claim C4. While the band indicator is not ready (\<open>Bolband.IsReady\<close> is false), a call
  of \<open>SetSignal\<close> sends nothing out, whatever the prices, the bands and the holding are: no
  entry, no liquidation (and no log record).
\<close>

theorem C4_band_not_ready_no_action:
  assumes "\<not> IsReady env"
  shows "emitted (SetSignal self env) = []"
proof (cases rule: SetSignal_cases [where env = env and self = self])
  case no_history
  then show ?thesis by (simp add: SetSignal_no_history)
next
  case (round_raises e)
  then show ?thesis by (simp add: SetSignal_round_raises)
next
  case (no_window n)
  then show ?thesis by (simp add: SetSignal_no_window)
next
  case (returns n)
  then show ?thesis
    using assms by (simp add: SetSignal_returns [OF returns(1,2) refl refl])
qed

theorem C4_band_not_ready_witness:
  "\<not> IsReady env_band_not_ready \<and> returned (SetSignal Initialize env_band_not_ready) \<and>
   emitted (SetSignal Initialize env_band_not_ready) = []"
proof -
  have nr: "\<not> IsReady env_band_not_ready"
    by (simp add: env_band_not_ready_def)
  show ?thesis
    using nr C4_band_not_ready_no_action [OF nr, of Initialize]
    by (simp add: eval_band_not_ready)
qed

text \<open>
  Claim C5. Whenever a call returns, the levels it leaves behind are those of the window
  \<open>w\<close> of bars that the history request for the adjusted \<open>numdays\<close> answered:
  \<open>buypoint\<close> is the greatest high of \<open>w\<close>, \<open>sellpoint\<close> the least low,
  \<open>longLiqPoint\<close> and \<open>shortLiqPoint\<close> the arithmetic mean of the closes, and
  \<open>yesterdayclose\<close> the close of the last (most recent) bar. The levels are a function of
  the window alone.
\<close>

theorem C5_breakout_levels:
  assumes "returned (SetSignal self env)"
  defines "self' \<equiv> final_state (SetSignal self env)"
  defines "w \<equiv> History env (numdays self')"
  shows "w \<noteq> [] \<and>
    buypoint self' = Some (Max (set (map bhigh w))) \<and>
    sellpoint self' = Some (Min (set (map blow w))) \<and>
    longLiqPoint self' = Some (Fin (sum_list (map bclose w) / real (length w))) \<and>
    shortLiqPoint self' = Some (Fin (sum_list (map bclose w) / real (length w))) \<and>
    yesterdayclose self' = Some (bclose (last w))"
proof -
  from assms(1) obtain n where h: "History env 31 \<noteq> []"
    and n: "scaled_numdays (numdays self) (map bclose (History env 31)) = Inr n"
    and ne: "History env (numdays (clamp_numdays (self\<lparr>numdays := n\<rparr>))) \<noteq> []"
    by (rule returned_window)
  note eq = SetSignal_returns [OF h n refl refl ne]
  have nd: "numdays self' = numdays (clamp_numdays (self\<lparr>numdays := n\<rparr>))"
    unfolding self'_def by (simp add: eq)
  show ?thesis
    unfolding w_def nd using ne unfolding self'_def by (simp add: eq)
qed

theorem C5_breakout_levels_witness:
  "returned (SetSignal Initialize env_breakout) \<and>
   History env_breakout (numdays (final_state (SetSignal Initialize env_breakout)))
     = map day_bar (tl closes_widening) \<and>
   Max (set (map bhigh (map day_bar (tl closes_widening)))) = 59 / 2 \<and>
   buypoint (final_state (SetSignal Initialize env_breakout)) = Some (59 / 2) \<and>
   sellpoint (final_state (SetSignal Initialize env_breakout)) = Some (1 / 2) \<and>
   longLiqPoint (final_state (SetSignal Initialize env_breakout)) = Some (Fin (33 / 5)) \<and>
   shortLiqPoint (final_state (SetSignal Initialize env_breakout)) = Some (Fin (33 / 5)) \<and>
   yesterdayclose (final_state (SetSignal Initialize env_breakout)) = Some 29"
proof -
  have r: "returned (SetSignal Initialize env_breakout)"
    by (simp add: eval_breakout)
  have m: "Max (set (map bhigh (map day_bar (tl closes_widening)))) = 59 / 2"
    by (simp add: closes_widening_def day_bar_def)
  have w: "History env_breakout (numdays (final_state (SetSignal Initialize env_breakout)))
     = map day_bar (tl closes_widening)"
    by (simp add: eval_breakout after_widening_def window_widening)
  show ?thesis
    using r C5_breakout_levels [OF r] unfolding w m
    by (simp add: closes_widening_def day_bar_def)
qed

text \<open>
  Claim C6, as the code has it. The claim says that a call sends out exactly one of
  long target, short target, liquidation and nothing, never an entry together with a
  liquidation. The entry and the exit are two separate \<open>if\<close> statements, and \<open>holdings\<close>
  is read before the entry: with a short holding on an upward breakout the call sends the
  long target and then the liquidation.
\<close>

theorem C6_entry_and_liquidation_together:
  "Quantity env_breakout < 0 \<and>
   decisions (emitted (SetSignal Initialize env_breakout)) = [SetHoldings 1, Liquidate]"
proof -
  have "Quantity env_breakout < 0"
    by (simp add: env_breakout_def)
  then show ?thesis
    by (simp add: eval_breakout decisions_def)
qed

text \<open>
  Claim C6, amended. Every call sends out at most one entry (a long or a short target) and
  at most one liquidation, the entry first when both are sent: the decisions of a call are
  none, one entry, one liquidation, or one entry followed by one liquidation.
\<close>

theorem C6_at_most_one_entry_then_one_liquidation:
  "decisions (emitted (SetSignal self env)) \<in>
     {[], [SetHoldings 1], [SetHoldings (- 1)], [Liquidate],
      [SetHoldings 1, Liquidate], [SetHoldings (- 1), Liquidate]}"
proof (cases rule: SetSignal_cases [where env = env and self = self])
  case no_history
  then show ?thesis by (simp add: SetSignal_no_history decisions_def)
next
  case (round_raises e)
  then show ?thesis by (simp add: SetSignal_round_raises decisions_def)
next
  case (no_window n)
  then show ?thesis by (simp add: SetSignal_no_window decisions_def)
next
  case (returns n)
  then show ?thesis
  proof (cases "IsReady env")
    case True
    show ?thesis
      unfolding SetSignal_returns_ready [OF returns True] decisions_orders
      by (rule orders_shape)
  next
    case False
    then show ?thesis
      by (simp add: SetSignal_returns [OF returns(1,2) refl refl returns(3)] decisions_def)
  qed
qed

text \<open>
  Claim C7, as the code has it. The claim says that when the history request returns
  fewer bars than requested the evaluation is skipped: no decision, no change of state,
  no error. The code never looks at the number of bars returned. With only 5 bars
  available the call on a fresh object returns, moves \<open>numdays\<close> from 20 to 21, assigns
  the levels and sends a long target.
\<close>

theorem C7_short_history_not_skipped:
  "length (History env_short 31) = 5 \<and>
   numdays Initialize = 20 \<and> buypoint Initialize = None \<and>
   returned (SetSignal Initialize env_short) \<and>
   numdays (final_state (SetSignal Initialize env_short)) = 21 \<and>
   buypoint (final_state (SetSignal Initialize env_short)) = Some (33 / 2) \<and>
   emitted (SetSignal Initialize env_short) = [SetHoldings 1, Log 16 21]"
proof -
  have "numdays Initialize = 20 \<and> buypoint Initialize = None"
    by (simp add: Initialize_def)
  then show ?thesis
    by (simp add: history_short closes_short_def eval_short after_short_def)
qed

text \<open>
  Claim C7, amended. When the request for 31 bars returns fewer, the call is not skipped.
  With no bar returned it raises KeyError: nothing is sent out and the object is as
  before. With at least one bar returned, \<open>todayvol\<close> is the standard deviation of the
  returned closes without the oldest and \<open>yesterdayvol\<close> that of all returned closes;
  when these are numbers and \<open>todayvol\<close> is not zero, \<open>numdays\<close> is scaled, rounded and
  clamped as on a full history, and the call returns (levels assigned, decisions taken)
  whenever the request for \<open>numdays\<close> bars returns at least one bar.
\<close>

theorem C7_short_history_evaluated:
  assumes "length (History env 31) < 31"
  defines "c \<equiv> map bclose (History env 31)"
  shows "(History env 31 = [] \<longrightarrow> SetSignal self env = Raised KeyError self) \<and>
    (History env 31 \<noteq> [] \<longrightarrow>
       py_slice 1 31 c = tl c \<and> py_slice 0 30 c = c \<and>
       (\<forall>t y. np_std (tl c) = Fin t \<and> t \<noteq> 0 \<and> np_std c = Fin y \<longrightarrow>
          (let nd = numdays (clamp_numdays
                 (self\<lparr>numdays := py_round (of_int (numdays self) * (1 + (t - y) / t))\<rparr>))
           in numdays (final_state (SetSignal self env)) = nd \<and>
              (History env nd \<noteq> [] \<longrightarrow> returned (SetSignal self env)))))"
proof -
  have lc: "length c \<le> 30"
    using assms(1) by (simp add: c_def)
  note sl = py_slice_short [OF lc]
  have adj: "numdays (final_state (SetSignal self env)) =
        numdays (clamp_numdays
          (self\<lparr>numdays := py_round (of_int (numdays self) * (1 + (t - y) / t))\<rparr>)) \<and>
      (History env (numdays (clamp_numdays
          (self\<lparr>numdays := py_round (of_int (numdays self) * (1 + (t - y) / t))\<rparr>))) \<noteq> [] \<longrightarrow>
       returned (SetSignal self env))"
    if ne: "History env 31 \<noteq> []" and t: "np_std (tl c) = Fin t" and nz: "t \<noteq> 0"
      and y: "np_std c = Fin y" for t y
  proof -
    let ?n = "py_round (of_int (numdays self) * (1 + (t - y) / t))"
    have "np_std (py_slice 1 31 c) = Fin t" and "np_std (py_slice 0 30 c) = Fin y"
      using t y by (simp_all only: sl)
    then have "scaled_numdays (numdays self) c = Inr ?n"
      using nz by (rule scaled_numdays_finite)
    then have sc: "scaled_numdays (numdays self) (map bclose (History env 31)) = Inr ?n"
      by (simp only: c_def)
    have "returned (SetSignal self env)"
      if "History env (numdays (clamp_numdays (self\<lparr>numdays := ?n\<rparr>))) \<noteq> []"
      by (simp add: SetSignal_returns [OF ne sc refl refl that])
    with SetSignal_numdays [OF ne sc] show ?thesis by blast
  qed
  show ?thesis
    using sl adj by (simp add: SetSignal_no_history Let_def)
qed

theorem C7_short_history_evaluated_witness:
  "History env_no_history 31 = [] \<and>
   SetSignal Initialize env_no_history = Raised KeyError Initialize \<and>
   length (History env_short 31) < 31 \<and> History env_short 31 \<noteq> [] \<and>
   map bclose (History env_short 31) = closes_short \<and>
   np_std (tl closes_short) = Fin 3 \<and> np_std closes_short = Fin (14 / 5) \<and>
   numdays (final_state (SetSignal Initialize env_short)) = 21 \<and>
   History env_short 21 \<noteq> [] \<and>
   returned (SetSignal Initialize env_short)"
proof -
  have e: "length (History env_no_history 31) < 31" "History env_no_history 31 = []"
    by (simp_all add: env_no_history_def getBars_def)
  have raised: "SetSignal Initialize env_no_history = Raised KeyError Initialize"
    using C7_short_history_evaluated [OF e(1), of Initialize] e(2) by simp
  have len: "length (History env_short 31) < 31" and ne: "History env_short 31 \<noteq> []"
    by (simp_all add: history_short closes_short_def)
  have c: "map bclose (History env_short 31) = closes_short"
    unfolding history_short by (rule bclose_day_bar)
  have t: "np_std (tl closes_short) = Fin 3" and y: "np_std closes_short = Fin (14 / 5)"
    by (simp_all add: closes_short_def np_std_def power2_eq_square sqrt_9 sqrt_196_25)
  have w: "History env_short 21 \<noteq> []"
    by (simp add: env_short_def getBars_def closes_short_def)
  have nd: "numdays (clamp_numdays
      (Initialize\<lparr>numdays := py_round (of_int (numdays Initialize) * (1 + (3 - 14 / 5) / 3))\<rparr>)) = 21"
    by (simp add: Initialize_def numdays_clamp_numdays py_round_def)
  have nz: "(3::real) \<noteq> 0"
    by simp
  have "let nd = numdays (clamp_numdays
      (Initialize\<lparr>numdays := py_round (of_int (numdays Initialize) * (1 + (3 - 14 / 5) / 3))\<rparr>))
    in numdays (final_state (SetSignal Initialize env_short)) = nd \<and>
       (History env_short nd \<noteq> [] \<longrightarrow> returned (SetSignal Initialize env_short))"
    using C7_short_history_evaluated [OF len, of Initialize, unfolded c] ne t y nz by blast
  then have "numdays (final_state (SetSignal Initialize env_short)) = 21 \<and>
      returned (SetSignal Initialize env_short)"
    unfolding Let_def nd using w by blast
  with e raised len ne c t y w show ?thesis by simp
qed

text \<open>
  Claim C8. \<open>longLiqPoint\<close> and \<open>shortLiqPoint\<close> are assigned together, from the mean of
  the same closes: if they are equal before a call (on a fresh object both are \<open>None\<close>)
  they are equal after it, whether the call returns or raises, and after a call that
  returns both are the mean of the window's closes. There is one exit level for both
  directions: a liquidation is sent exactly when the call gets past the band test and
  the holding is positive with the price at or below that level, or negative with the
  price at or above it.
\<close>

theorem C8_single_liquidation_level:
  fixes self :: algo and env :: env
  assumes "longLiqPoint self = shortLiqPoint self"
  defines "self' \<equiv> final_state (SetSignal self env)"
  shows "longLiqPoint self' = shortLiqPoint self' \<and>
    (returned (SetSignal self env) \<longrightarrow>
       longLiqPoint self' = Some (np_mean (map bclose (History env (numdays self'))))) \<and>
    (Liquidate \<in> set (emitted (SetSignal self env)) \<longleftrightarrow>
       returned (SetSignal self env) \<and> IsReady env \<and>
       (\<exists>liq. longLiqPoint self' = Some liq \<and> shortLiqPoint self' = Some liq \<and>
          (Quantity env > 0 \<and> fle (Price env) liq \<or> Quantity env < 0 \<and> fge (Price env) liq)))"
proof (cases rule: SetSignal_cases [where env = env and self = self])
  case no_history
  then show ?thesis
    using assms(1) unfolding self'_def by (simp add: SetSignal_no_history)
next
  case (round_raises e)
  then show ?thesis
    using assms(1) unfolding self'_def by (simp add: SetSignal_round_raises)
next
  case (no_window n)
  then show ?thesis
    using assms(1) unfolding self'_def by (simp add: SetSignal_no_window clamp_numdays_def)
next
  case (returns n)
  note eq = SetSignal_returns [OF returns(1,2) refl refl returns(3)]
  have st: "longLiqPoint self' = shortLiqPoint self'" "returned (SetSignal self env)"
    "longLiqPoint self' = Some (np_mean (map bclose (History env (numdays self'))))"
    unfolding self'_def using returns(3) by (simp_all add: eq np_mean_def)
  have "Liquidate \<in> set (emitted (SetSignal self env)) \<longleftrightarrow>
       IsReady env \<and>
       (\<exists>liq. longLiqPoint self' = Some liq \<and> shortLiqPoint self' = Some liq \<and>
          (Quantity env > 0 \<and> fle (Price env) liq \<or> Quantity env < 0 \<and> fge (Price env) liq))"
  proof (cases "IsReady env")
    case True
    show ?thesis
      unfolding SetSignal_returns_ready [OF returns True] self'_def
      using True by (simp add: Liquidate_in_orders eq)
  next
    case False
    then show ?thesis by (simp add: eq)
  qed
  with st show ?thesis by simp
qed

theorem C8_single_liquidation_level_witness:
  "longLiqPoint Initialize = shortLiqPoint Initialize \<and>
   longLiqPoint (final_state (SetSignal Initialize env_breakout)) = Some (Fin (33 / 5)) \<and>
   shortLiqPoint (final_state (SetSignal Initialize env_breakout)) = Some (Fin (33 / 5)) \<and>
   Quantity env_breakout < 0 \<and> fge (Price env_breakout) (Fin (33 / 5)) \<and>
   Liquidate \<in> set (emitted (SetSignal Initialize env_breakout))"
proof -
  have i: "longLiqPoint Initialize = shortLiqPoint Initialize"
    by (simp add: Initialize_def)
  have q: "Quantity env_breakout < 0 \<and> fge (Price env_breakout) (Fin (33 / 5))"
    and rd: "IsReady env_breakout"
    by (simp_all add: env_breakout_def)
  have st: "longLiqPoint (final_state (SetSignal Initialize env_breakout)) = Some (Fin (33 / 5))"
    "shortLiqPoint (final_state (SetSignal Initialize env_breakout)) = Some (Fin (33 / 5))"
    "returned (SetSignal Initialize env_breakout)"
    by (simp_all add: eval_breakout after_widening_def)
  have "Liquidate \<in> set (emitted (SetSignal Initialize env_breakout))"
    using C8_single_liquidation_level [OF i, of env_breakout] st q rd by blast
  with i q st show ?thesis by blast
qed

text \<open>
  Claim C9. What a run shows, the sequence of \<open>numdays\<close> values and of what each call
  sent out (ended by the exception, if a call raises), is a function of the sequence of
  daily observations and of the lookback state \<open>numdays\<close>, \<open>floor\<close>, \<open>ceiling\<close> at the
  start alone: two runs over the same days from objects that agree on these three give
  the same trace, whatever levels the objects carry. In particular every run from a
  freshly initialised object over the same days gives the same trace.
\<close>

theorem C9_deterministic_replay:
  assumes "numdays s1 = numdays s2"
    and "floor_lim s1 = floor_lim s2" and "ceiling_lim s1 = ceiling_lim s2"
  shows "run s1 envs = run s2 envs"
  using assms
proof (induction envs arbitrary: s1 s2)
  case Nil
  show ?case by simp
next
  case (Cons env envs)
  from SetSignal_same_lookback [OF Cons.prems, of env] show ?case
  proof (elim disjE exE conjE)
    fix e a b
    assume "SetSignal s1 env = Raised e a" and "SetSignal s2 env = Raised e b"
    then show ?thesis by simp
  next
    fix a b effs
    assume r: "SetSignal s1 env = Returned a effs" "SetSignal s2 env = Returned b effs"
      and same: "numdays a = numdays b" "floor_lim a = floor_lim b" "ceiling_lim a = ceiling_lim b"
    from same have "run a envs = run b envs" by (rule Cons.IH)
    with r same show ?thesis by simp
  qed
qed

theorem C9_deterministic_replay_witness:
  "numdays Initialize = numdays (after_short\<lparr>numdays := 20\<rparr>) \<and>
   floor_lim Initialize = floor_lim (after_short\<lparr>numdays := 20\<rparr>) \<and>
   ceiling_lim Initialize = ceiling_lim (after_short\<lparr>numdays := 20\<rparr>) \<and>
   Initialize \<noteq> after_short\<lparr>numdays := 20\<rparr> \<and>
   run Initialize [env_breakout, env_exit_boundary] =
     [Inr (30, [SetHoldings 1, Liquidate, Log 29 30]), Inr (45, [Log 29 45])] \<and>
   run (after_short\<lparr>numdays := 20\<rparr>) [env_breakout, env_exit_boundary] =
     [Inr (30, [SetHoldings 1, Liquidate, Log 29 30]), Inr (45, [Log 29 45])]"
proof -
  have same: "numdays Initialize = numdays (after_short\<lparr>numdays := 20\<rparr>)"
    "floor_lim Initialize = floor_lim (after_short\<lparr>numdays := 20\<rparr>)"
    "ceiling_lim Initialize = ceiling_lim (after_short\<lparr>numdays := 20\<rparr>)"
    by (simp_all add: Initialize_def after_short_def)
  have diff: "Initialize \<noteq> after_short\<lparr>numdays := 20\<rparr>"
    by (simp add: Initialize_def after_short_def)
  have second: "SetSignal after_widening env_exit_boundary
      = Returned (after_widening\<lparr>numdays := 45, buypoint := Some (59 / 2),
          sellpoint := Some (1 / 2), longLiqPoint := Some (Fin (203 / 31)),
          shortLiqPoint := Some (Fin (203 / 31)), yesterdayclose := Some 29,
          high := Some (map bhigh (map day_bar closes_widening)),
          low := Some (map blow (map day_bar closes_widening))\<rparr>) [Log 29 45]"
    by (simp add: eval_simps env_exit_boundary_def closes_widening_def after_widening_def)
  have r: "run Initialize [env_breakout, env_exit_boundary] =
     [Inr (30, [SetHoldings 1, Liquidate, Log 29 30]), Inr (45, [Log 29 45])]"
    by (simp add: eval_breakout second) (simp add: after_widening_def)
  show ?thesis
    using same diff r C9_deterministic_replay [OF same, of "[env_breakout, env_exit_boundary]"]
    by simp
qed

text \<open>
  Claim C10. The test of the band comes after the adjustment and after the levels. On a day when
  the band is not ready and the call gets as far as the adjustment (the 31-bar request
  returned a bar and the scaled value \<open>n\<close> is a number), \<open>numdays\<close> is set to \<open>n\<close> clamped
  between floor and ceiling, nothing is sent out, and the object left behind is the one
  that the same day with a ready band would leave: when the window request returns a bar,
  the call returns with all levels assigned from that window.
\<close>

theorem C10_adjustment_before_band_check:
  assumes "\<not> IsReady env" and "History env 31 \<noteq> []"
    and "scaled_numdays (numdays self) (map bclose (History env 31)) = Inr n"
  defines "self' \<equiv> final_state (SetSignal self env)"
  defines "w \<equiv> History env (numdays self')"
  shows "numdays self' =
      (if n > ceiling_lim self then ceiling_lim self
       else if n < floor_lim self then floor_lim self else n) \<and>
    emitted (SetSignal self env) = [] \<and>
    self' = final_state (SetSignal self (env\<lparr>IsReady := True\<rparr>)) \<and>
    (w \<noteq> [] \<longrightarrow>
       returned (SetSignal self env) \<and>
       high self' = Some (map bhigh w) \<and> low self' = Some (map blow w) \<and>
       buypoint self' = Some (Max (set (map bhigh w))) \<and>
       sellpoint self' = Some (Min (set (map blow w))) \<and>
       longLiqPoint self' = Some (np_mean (map bclose w)) \<and>
       shortLiqPoint self' = Some (np_mean (map bclose w)) \<and>
       yesterdayclose self' = Some (bclose (last w)))"
proof -
  let ?ready = "env\<lparr>IsReady := True\<rparr>"
  have h': "History ?ready 31 \<noteq> []"
    and n': "scaled_numdays (numdays self) (map bclose (History ?ready 31)) = Inr n"
    using assms(2,3) by simp_all
  have nd: "numdays self' = numdays (clamp_numdays (self\<lparr>numdays := n\<rparr>))"
    unfolding self'_def by (rule SetSignal_numdays [OF assms(2,3)])
  show ?thesis
  proof (cases "History env (numdays (clamp_numdays (self\<lparr>numdays := n\<rparr>))) = []")
    case True
    then have "History ?ready (numdays (clamp_numdays (self\<lparr>numdays := n\<rparr>))) = []"
      by simp
    note r = SetSignal_no_window [OF assms(2,3) True] SetSignal_no_window [OF h' n' this]
    have "w = []"
      unfolding w_def nd by (rule True)
    then show ?thesis
      unfolding self'_def by (simp add: r numdays_clamp_numdays)
  next
    case False
    then have "History ?ready (numdays (clamp_numdays (self\<lparr>numdays := n\<rparr>))) \<noteq> []"
      by simp
    note r = SetSignal_returns [OF assms(2,3) refl refl False]
      SetSignal_returns [OF h' n' refl refl this]
    have w: "w = History env (numdays (clamp_numdays (self\<lparr>numdays := n\<rparr>)))"
      unfolding w_def nd by (rule refl)
    show ?thesis
      unfolding w using assms(1) False unfolding self'_def
      by (simp add: r numdays_clamp_numdays np_mean_def)
  qed
qed

theorem C10_adjustment_before_band_check_witness:
  "\<not> IsReady env_band_not_ready \<and> History env_band_not_ready 31 \<noteq> [] \<and>
   scaled_numdays (numdays Initialize) (map bclose (History env_band_not_ready 31)) = Inr 30 \<and>
   numdays Initialize = 20 \<and> buypoint Initialize = None \<and>
   numdays (final_state (SetSignal Initialize env_band_not_ready)) = 30 \<and>
   buypoint (final_state (SetSignal Initialize env_band_not_ready)) = Some (59 / 2) \<and>
   returned (SetSignal Initialize env_band_not_ready) \<and>
   emitted (SetSignal Initialize env_band_not_ready) = []"
proof -
  have nr: "\<not> IsReady env_band_not_ready"
    by (simp add: env_band_not_ready_def)
  have h: "History env_band_not_ready 31 \<noteq> []"
    by (simp add: history_widening closes_widening_def)
  have i: "numdays Initialize = 20" "buypoint Initialize = None"
    "floor_lim Initialize = 20" "ceiling_lim Initialize = 60"
    by (simp_all add: Initialize_def)
  have c: "map bclose (History env_band_not_ready 31) = closes_widening"
    unfolding history_widening by (rule bclose_day_bar)
  have "scaled_numdays 20 closes_widening = Inr (py_round (of_int 20 * (1 + (24 / 5 - 12 / 5) / (24 / 5))))"
    by (rule scaled_numdays_finite [OF std_widening]) simp
  then have n: "scaled_numdays (numdays Initialize) (map bclose (History env_band_not_ready 31)) = Inr 30"
    unfolding c i by (simp add: py_round_def)
  note adj = C10_adjustment_before_band_check [OF nr h n]
  have e: "emitted (SetSignal Initialize env_band_not_ready) = []"
    using adj by blast
  have nd: "numdays (final_state (SetSignal Initialize env_band_not_ready)) = 30"
    using adj [THEN conjunct1] unfolding i by simp
  have st: "buypoint (final_state (SetSignal Initialize env_band_not_ready)) = Some (59 / 2)"
    "returned (SetSignal Initialize env_band_not_ready)"
    by (simp_all add: eval_band_not_ready after_widening_def)
  from nr h n i(1,2) nd st e show ?thesis by blast
qed

end
